theory Spec2Isabelle
  imports Complex_Main
begin

section \<open>Shanghai take-home pay calculator\<close>

text \<open>
  A shallow embedding of \<^verbatim>\<open>Shanghai_take-home_pay_calculator.py\<close>.

  Number model. The source computes with Python \<^verbatim>\<open>float\<close> values. Here every
  such value is an exact \<^typ>\<open>real\<close>, so \<open>+\<close>, \<open>-\<close>, \<open>*\<close>, \<open>max\<close>, \<open>min\<close> and the
  comparisons are the mathematical ones and the decimal literals of the source
  (\<open>0.08\<close>, \<open>0.005\<close>, ...) denote the exact decimal fractions. Rounding of IEEE
  doubles, NaN and infinite salaries are outside this model. The one infinite
  value the source itself writes, \<^verbatim>\<open>float("inf")\<close> as the last bracket's
  \<^verbatim>\<open>up_to\<close>, is kept as the extra element \<open>PInf\<close> of the type \<open>bound\<close>.
  \<^verbatim>\<open>month_index\<close> is a Python \<^verbatim>\<open>int\<close>, here an \<^typ>\<open>int\<close>; \<^verbatim>\<open>Optional\<close>
  parameters are \<open>option\<close>s; \<^verbatim>\<open>float(x)\<close> is the identity.
\<close>

subsection \<open>Configuration\<close>

datatype bound = Fin real | PInf

text \<open>The comparison \<^verbatim>\<open>t <= b["up_to"]\<close> for a finite \<open>t\<close>.\<close>

fun le_bound :: "real \<Rightarrow> bound \<Rightarrow> bool" where
  "le_bound t (Fin u) = (t \<le> u)"
| "le_bound t PInf = True"

text \<open>
  A bracket is one of the dictionaries \<^verbatim>\<open>{"up_to": .., "rate": .., "quick": ..}\<close>;
  the source reads exactly these three keys.
\<close>

record bracket =
  up_to :: bound
  rate :: real
  quick :: real

text \<open>
  The dataclass \<^verbatim>\<open>ShanghaiConfig\<close>. Its field \<^verbatim>\<open>brackets: List[Dict] = None\<close>
  holds \<open>None\<close> unless the caller (or \<open>default_config\<close>) supplies a list.
\<close>

record ShanghaiConfig =
  si_floor :: real
  si_cap :: real
  hf_floor :: real
  hf_cap :: real
  pension_rate_emp :: real
  medical_rate_emp :: real
  unemployment_rate_emp :: real
  default_hf_rate_emp :: real
  standard_deduction_monthly :: real
  brackets :: "bracket list option"

text \<open>\<^verbatim>\<open>ShanghaiConfig(brackets=bs)\<close>: every other field takes its declared default.\<close>

definition ShanghaiConfig_init :: "bracket list option \<Rightarrow> ShanghaiConfig" where
  "ShanghaiConfig_init bs =
     \<lparr> si_floor = 7384.0, si_cap = 36921.0,
       hf_floor = 2690.0, hf_cap = 36921.0,
       pension_rate_emp = 0.08, medical_rate_emp = 0.02,
       unemployment_rate_emp = 0.005,
       default_hf_rate_emp = 0.07,
       standard_deduction_monthly = 5000.0,
       brackets = bs \<rparr>"

definition default_brackets :: "bracket list" where
  "default_brackets =
     [ \<lparr> up_to = Fin 36000,  rate = 0.03, quick = 0 \<rparr>,
       \<lparr> up_to = Fin 144000, rate = 0.10, quick = 2520 \<rparr>,
       \<lparr> up_to = Fin 300000, rate = 0.20, quick = 16920 \<rparr>,
       \<lparr> up_to = Fin 420000, rate = 0.25, quick = 31920 \<rparr>,
       \<lparr> up_to = Fin 660000, rate = 0.30, quick = 52920 \<rparr>,
       \<lparr> up_to = Fin 960000, rate = 0.35, quick = 85920 \<rparr>,
       \<lparr> up_to = PInf,       rate = 0.45, quick = 181920 \<rparr> ]"

definition default_config :: ShanghaiConfig where
  "default_config = ShanghaiConfig_init (Some default_brackets)"

subsection \<open>Contribution calculators\<close>

definition clamp :: "real \<Rightarrow> real \<Rightarrow> real \<Rightarrow> real" where
  "clamp x lo hi = max lo (min hi x)"

text \<open>
  The dictionary returned by \<^verbatim>\<open>calc_employee_social\<close>; the key \<^verbatim>\<open>"base"\<close> is
  the field \<open>base_si\<close>.
\<close>

record social_insurance_result =
  base_si :: real
  pension :: real
  medical :: real
  unemployment :: real
  total :: real

definition calc_employee_social ::
  "real \<Rightarrow> ShanghaiConfig \<Rightarrow> real option \<Rightarrow> social_insurance_result" where
  "calc_employee_social gross cfg si_base =
     (let base = clamp (case si_base of Some b \<Rightarrow> b | None \<Rightarrow> gross)
                   (si_floor cfg) (si_cap cfg);
          p = base * pension_rate_emp cfg;
          m = base * medical_rate_emp cfg;
          u = base * unemployment_rate_emp cfg
      in \<lparr> base_si = base, pension = p, medical = m, unemployment = u,
           total = p + m + u \<rparr>)"

text \<open>
  The dictionary returned by \<^verbatim>\<open>calc_housing_fund\<close>; the keys \<^verbatim>\<open>"rate"\<close> and
  \<^verbatim>\<open>"base"\<close> are the fields \<open>rate_hf\<close> and \<open>base_hf\<close>.
\<close>

record housing_fund_result =
  rate_hf :: real
  base_hf :: real
  amount :: real

definition calc_housing_fund ::
  "real \<Rightarrow> ShanghaiConfig \<Rightarrow> real option \<Rightarrow> real option \<Rightarrow> housing_fund_result" where
  "calc_housing_fund gross cfg hf_rate hf_base =
     (let r = (case hf_rate of None \<Rightarrow> default_hf_rate_emp cfg | Some h \<Rightarrow> h);
          base = clamp (case hf_base of Some b \<Rightarrow> b | None \<Rightarrow> gross)
                   (hf_floor cfg) (hf_cap cfg)
      in \<lparr> rate_hf = r, base_hf = base, amount = base * r \<rparr>)"

subsection \<open>Progressive tax function\<close>

datatype error = ValueError | TypeError

text \<open>
  The \<^verbatim>\<open>for\<close> loop of \<^verbatim>\<open>_tax_on_cumulative_taxable\<close>: the first bracket with
  \<^verbatim>\<open>t <= up_to\<close> decides; when no bracket matches, the statement after the
  loop returns \<^verbatim>\<open>t * 0.45 - 181920\<close>.
\<close>

fun scan_brackets :: "real \<Rightarrow> bracket list \<Rightarrow> real" where
  "scan_brackets t [] = t * 0.45 - 181920"
| "scan_brackets t (b # bs) =
     (if le_bound t (up_to b) then t * rate b - quick b else scan_brackets t bs)"

text \<open>
  Iterating over \<^verbatim>\<open>cfg.brackets\<close> when it is \<^verbatim>\<open>None\<close> raises Python's
  \<^verbatim>\<open>TypeError\<close>.
\<close>

definition tax_on_cumulative_taxable :: "real \<Rightarrow> ShanghaiConfig \<Rightarrow> error + real" where
  "tax_on_cumulative_taxable cum_taxable cfg =
     (let t = max 0.0 cum_taxable
      in case brackets cfg of
           None \<Rightarrow> Inl TypeError
         | Some bs \<Rightarrow> Inr (scan_brackets t bs))"

subsection \<open>Cumulative withholding engine\<close>

text \<open>
  The local variables of \<^verbatim>\<open>takehome_shanghai\<close> that hold the year-to-date
  figures (source lines 103 to 122).
\<close>

record cumulative =
  cum_income :: real
  cum_si :: real
  cum_hf :: real
  cum_standard :: real
  cum_special :: real
  cum_taxable :: real
  cum_tax_payable :: real

text \<open>
  Lines 103 to 114: cumulative income and the prior months' contribution
  totals, from the flat assumption or from the explicit history.
\<close>

definition prior_totals ::
  "real \<Rightarrow> int \<Rightarrow> ShanghaiConfig \<Rightarrow> real option \<Rightarrow> real option \<Rightarrow> real option
     \<Rightarrow> real list option \<Rightarrow> error + (real \<times> real \<times> real)" where
  "prior_totals gross_salary month_index cfg si_base hf_rate hf_base cumulative_prev_pay =
     (case cumulative_prev_pay of
        None \<Rightarrow>
          (let prev_m = max 0 (month_index - 1);
               income = gross_salary * of_int month_index;
               prev_si_total =
                 total (calc_employee_social gross_salary cfg si_base) * of_int prev_m;
               prev_hf_total =
                 amount (calc_housing_fund gross_salary cfg hf_rate hf_base) * of_int prev_m
           in Inr (income, prev_si_total, prev_hf_total))
      | Some prev \<Rightarrow>
          if int (length prev) \<noteq> month_index - 1 then Inl ValueError
          else Inr (sum_list prev + gross_salary,
                    sum_list (map (\<lambda>s. total (calc_employee_social s cfg si_base)) prev),
                    sum_list (map (\<lambda>s. amount (calc_housing_fund s cfg hf_rate hf_base)) prev)))"

text \<open>Lines 103 to 122, for the configuration already resolved.\<close>

definition cumulative_figures ::
  "real \<Rightarrow> int \<Rightarrow> ShanghaiConfig \<Rightarrow> real \<Rightarrow> real option \<Rightarrow> real option \<Rightarrow> real option
     \<Rightarrow> real list option \<Rightarrow> error + cumulative" where
  "cumulative_figures gross_salary month_index cfg special_deductions_monthly
       si_base hf_rate hf_base cumulative_prev_pay =
     (let si = calc_employee_social gross_salary cfg si_base;
          hf = calc_housing_fund gross_salary cfg hf_rate hf_base
      in case prior_totals gross_salary month_index cfg si_base hf_rate hf_base
                cumulative_prev_pay of
           Inl e \<Rightarrow> Inl e
         | Inr (income, prev_si_total, prev_hf_total) \<Rightarrow>
             (let csi = prev_si_total + total si;
                  chf = prev_hf_total + amount hf;
                  cstandard = standard_deduction_monthly cfg * of_int month_index;
                  cspecial = special_deductions_monthly * of_int month_index;
                  ctaxable = income - csi - chf - cstandard - cspecial
              in case tax_on_cumulative_taxable ctaxable cfg of
                   Inl e \<Rightarrow> Inl e
                 | Inr ctax \<Rightarrow>
                     Inr \<lparr> cum_income = income, cum_si = csi, cum_hf = chf,
                           cum_standard = cstandard, cum_special = cspecial,
                           cum_taxable = ctaxable, cum_tax_payable = ctax \<rparr>))"

text \<open>
  The result dictionary. The keys \<^verbatim>\<open>"month_index"\<close> and \<^verbatim>\<open>"gross_salary"\<close> are
  the fields \<open>r_month_index\<close> and \<open>r_gross_salary\<close>; in the nested
  \<^verbatim>\<open>"assumptions"\<close> dictionary the keys \<^verbatim>\<open>"standard_deduction_monthly"\<close> and
  \<^verbatim>\<open>"special_deductions_monthly"\<close> are \<open>a_standard_deduction_monthly\<close> and
  \<open>a_special_deductions_monthly\<close>.
\<close>

record assumptions_result =
  a_standard_deduction_monthly :: real
  a_special_deductions_monthly :: real
  si_base_used_this_month :: real
  hf_base_used_this_month :: real

record payroll_result =
  r_month_index :: int
  r_gross_salary :: real
  take_home :: real
  tax_this_month :: real
  cumulative_tax_payable :: real
  pre_tax_deductions_this_month :: real
  social_insurance :: social_insurance_result
  housing_fund :: housing_fund_result
  cumulative_taxable_income :: real
  assumptions :: assumptions_result

text \<open>
  \<^verbatim>\<open>takehome_shanghai\<close>. A dataclass instance is truthy, so
  \<^verbatim>\<open>cfg or default_config()\<close> replaces exactly the argument \<^verbatim>\<open>None\<close>.
\<close>

definition takehome_shanghai ::
  "real \<Rightarrow> int \<Rightarrow> ShanghaiConfig option \<Rightarrow> real \<Rightarrow> real option \<Rightarrow> real option
     \<Rightarrow> real option \<Rightarrow> real list option \<Rightarrow> real \<Rightarrow> error + payroll_result" where
  "takehome_shanghai gross_salary month_index cfg_arg special_deductions_monthly
       si_base hf_rate hf_base cumulative_prev_pay prev_withheld_tax =
     (let cfg = (case cfg_arg of None \<Rightarrow> default_config | Some c \<Rightarrow> c);
          si = calc_employee_social gross_salary cfg si_base;
          hf = calc_housing_fund gross_salary cfg hf_rate hf_base
      in case cumulative_figures gross_salary month_index cfg special_deductions_monthly
                si_base hf_rate hf_base cumulative_prev_pay of
           Inl e \<Rightarrow> Inl e
         | Inr c \<Rightarrow>
             (let tax = max 0.0 (cum_tax_payable c - prev_withheld_tax);
                  takehome = gross_salary - total si - amount hf - tax
              in Inr \<lparr> r_month_index = month_index,
                       r_gross_salary = gross_salary,
                       take_home = takehome,
                       tax_this_month = tax,
                       cumulative_tax_payable = cum_tax_payable c,
                       pre_tax_deductions_this_month = total si + amount hf,
                       social_insurance = si,
                       housing_fund = hf,
                       cumulative_taxable_income = max 0.0 (cum_taxable c),
                       assumptions =
                         \<lparr> a_standard_deduction_monthly = standard_deduction_monthly cfg,
                           a_special_deductions_monthly = special_deductions_monthly,
                           si_base_used_this_month = base_si si,
                           hf_base_used_this_month = base_hf hf \<rparr> \<rparr>))"

section \<open>Auxiliary facts\<close>

lemmas engine_defs = takehome_shanghai_def cumulative_figures_def prior_totals_def
  tax_on_cumulative_taxable_def calc_employee_social_def calc_housing_fund_def clamp_def
  default_config_def ShanghaiConfig_init_def default_brackets_def Let_def







lemma tax_default:
  "tax_on_cumulative_taxable x default_config
     = Inr (scan_brackets (max 0 x) default_brackets)"
  by (simp add: tax_on_cumulative_taxable_def default_config_def ShanghaiConfig_init_def)

text \<open>
  On non-negative incomes the default table is non-decreasing: each segment
  has a non-negative slope and adjacent segments meet at the boundary.
\<close>

lemma scan_default_mono:
  "0 \<le> s \<Longrightarrow> s \<le> t \<Longrightarrow>
     scan_brackets s default_brackets \<le> scan_brackets t default_brackets"
  unfolding default_brackets_def by (simp split: if_splits)

section \<open>Properties\<close>

subsection \<open>Flat-assumption equivalence\<close>



subsection \<open>Length validation\<close>




subsection \<open>This month's tax\<close>

text \<open>
  C3. For every input on which the engine returns, whatever
  \<open>prev_withheld_tax\<close> is, the returned \<open>tax_this_month\<close> is at least 0 and
  equals \<open>max 0 (cumulative tax payable - prev_withheld_tax)\<close>, where the
  cumulative tax payable is the one computed from the cumulative figures and
  reported in the result.
\<close>

theorem tax_this_month_nonneg:
  assumes "takehome_shanghai g m cfg_arg sd sib hfr hfb prev pw = Inr r"
  shows "0 \<le> tax_this_month r \<and>
         tax_this_month r = max 0 (cumulative_tax_payable r - pw) \<and>
         (\<exists>c. cumulative_figures g m (case cfg_arg of None \<Rightarrow> default_config | Some c \<Rightarrow> c)
                 sd sib hfr hfb prev = Inr c \<and> cumulative_tax_payable r = cum_tax_payable c)"
  using assms by (auto simp: takehome_shanghai_def Let_def split: sum.splits)

text \<open>
  Month 1 at 30,000 with 1,000 already withheld, more than the 592.5 payable:
  this month's tax is 0.
\<close>

theorem tax_this_month_nonneg_witness:
  "takehome_shanghai 30000 1 None 0 None (Some 0.07) None None 1000
     = Inr \<lparr> r_month_index = 1, r_gross_salary = 30000, take_home = 24750,
             tax_this_month = 0, cumulative_tax_payable = 592.5,
             pre_tax_deductions_this_month = 5250,
             social_insurance = \<lparr> base_si = 30000, pension = 2400, medical = 600,
                                  unemployment = 150, total = 3150 \<rparr>,
             housing_fund = \<lparr> rate_hf = 0.07, base_hf = 30000, amount = 2100 \<rparr>,
             cumulative_taxable_income = 19750,
             assumptions = \<lparr> a_standard_deduction_monthly = 5000,
                             a_special_deductions_monthly = 0,
                             si_base_used_this_month = 30000,
                             hf_base_used_this_month = 30000 \<rparr> \<rparr>
   \<and> (0::real) \<le> 0 \<and> (0::real) = max 0 (592.5 - 1000)"
proof -
  have v: "takehome_shanghai 30000 1 None 0 None (Some 0.07) None None 1000
     = Inr \<lparr> r_month_index = 1, r_gross_salary = 30000, take_home = 24750,
             tax_this_month = 0, cumulative_tax_payable = 592.5,
             pre_tax_deductions_this_month = 5250,
             social_insurance = \<lparr> base_si = 30000, pension = 2400, medical = 600,
                                  unemployment = 150, total = 3150 \<rparr>,
             housing_fund = \<lparr> rate_hf = 0.07, base_hf = 30000, amount = 2100 \<rparr>,
             cumulative_taxable_income = 19750,
             assumptions = \<lparr> a_standard_deduction_monthly = 5000,
                             a_special_deductions_monthly = 0,
                             si_base_used_this_month = 30000,
                             hf_base_used_this_month = 30000 \<rparr> \<rparr>"
    by (simp add: engine_defs)
  show ?thesis using tax_this_month_nonneg [OF v] v by simp
qed

subsection \<open>The month-1 scenario\<close>

text \<open>
  C4. Gross salary 30,000, month index 1, default configuration (argument
  omitted), \<open>hf_rate = 0.07\<close>, no special deductions, no history, nothing
  withheld: the engine returns social-insurance total 3,150, housing-fund
  amount 2,100, cumulative taxable income 19,750, this month's tax 592.5 and
  take-home pay 24,157.5, which is gross minus the three deductions.
\<close>

theorem scenario_month_1:
  "\<exists>r. takehome_shanghai 30000 1 None 0 None (Some 0.07) None None 0 = Inr r \<and>
       total (social_insurance r) = 3150 \<and> amount (housing_fund r) = 2100 \<and>
       cumulative_taxable_income r = 19750 \<and> tax_this_month r = 592.5 \<and>
       take_home r = 24157.5 \<and>
       take_home r = 30000 - total (social_insurance r) - amount (housing_fund r)
                     - tax_this_month r"
  by (simp add: engine_defs)

subsection \<open>Clamping of the contribution base\<close>

text \<open>
  C5. For every configuration with floor \<open>\<le>\<close> cap, the base used by each
  calculator is the floor when the selected base (the override if given, else
  the gross salary) is below the floor, the cap when it is above the cap, and
  the selected base itself when it lies in \<open>[floor, cap]\<close>.
\<close>

theorem clamping:
  "(si_floor cfg \<le> si_cap cfg \<longrightarrow>
      (let sel = (case si_base of Some b \<Rightarrow> b | None \<Rightarrow> gross);
           used = base_si (calc_employee_social gross cfg si_base)
       in (sel < si_floor cfg \<longrightarrow> used = si_floor cfg) \<and>
          (si_cap cfg < sel \<longrightarrow> used = si_cap cfg) \<and>
          (si_floor cfg \<le> sel \<and> sel \<le> si_cap cfg \<longrightarrow> used = sel)))
   \<and> (hf_floor cfg \<le> hf_cap cfg \<longrightarrow>
      (let sel = (case hf_base of Some b \<Rightarrow> b | None \<Rightarrow> gross);
           used = base_hf (calc_housing_fund gross cfg hf_rate hf_base)
       in (sel < hf_floor cfg \<longrightarrow> used = hf_floor cfg) \<and>
          (hf_cap cfg < sel \<longrightarrow> used = hf_cap cfg) \<and>
          (hf_floor cfg \<le> sel \<and> sel \<le> hf_cap cfg \<longrightarrow> used = sel)))"
  by (auto simp: calc_employee_social_def calc_housing_fund_def clamp_def Let_def)

text \<open>
  Default configuration, gross 3,000: below the social-insurance floor, inside
  the housing-fund range; override bases 50,000 (above the cap) and 1,000
  (below the floor).
\<close>

theorem clamping_witness:
  "si_floor default_config \<le> si_cap default_config
   \<and> hf_floor default_config \<le> hf_cap default_config
   \<and> base_si (calc_employee_social 3000 default_config None) = 7384
   \<and> base_hf (calc_housing_fund 3000 default_config None None) = 3000
   \<and> base_si (calc_employee_social 3000 default_config (Some 50000)) = 36921
   \<and> base_hf (calc_housing_fund 3000 default_config None (Some 1000)) = 2690"
  using clamping [where cfg = default_config and gross = 3000 and si_base = None
      and hf_base = None and hf_rate = None]
    clamping [where cfg = default_config and gross = 3000 and si_base = "Some 50000"
      and hf_base = "Some 1000" and hf_rate = None]
  by (simp add: default_config_def ShanghaiConfig_init_def Let_def)

subsection \<open>The default bracket table\<close>



text \<open>
  C7. Under the default configuration the tax function is monotone
  non-decreasing: for cumulative taxable incomes \<open>x \<le> y\<close> it returns on both,
  and the tax payable at \<open>x\<close> is at most the tax payable at \<open>y\<close>.
\<close>

theorem tax_monotone:
  assumes "x \<le> y"
  shows "\<exists>tx ty. tax_on_cumulative_taxable x default_config = Inr tx \<and>
                 tax_on_cumulative_taxable y default_config = Inr ty \<and> tx \<le> ty"
proof -
  have "0 \<le> max 0 x" "max 0 x \<le> max 0 y" using assms by auto
  then show ?thesis by (simp add: tax_default scan_default_mono)
qed

text \<open>30,000 in the 3% bracket and 40,000 in the 10% bracket: 900 and 1,480.\<close>

theorem tax_monotone_witness:
  "(30000 :: real) \<le> 40000
   \<and> tax_on_cumulative_taxable 30000 default_config = Inr 900
   \<and> tax_on_cumulative_taxable 40000 default_config = Inr 1480
   \<and> (900 :: real) \<le> 1480"
proof -
  have h: "(30000 :: real) \<le> 40000" by simp
  have v: "tax_on_cumulative_taxable 30000 default_config = Inr 900"
          "tax_on_cumulative_taxable 40000 default_config = Inr 1480"
    by (simp_all add: tax_default default_brackets_def)
  show ?thesis using tax_monotone [OF h] v by simp
qed

text \<open>
  C8. Under the default configuration, for every cumulative taxable income
  \<open>\<le> 0\<close> the tax function returns cumulative tax payable exactly 0.
\<close>

theorem zero_tax_below_zero:
  "x \<le> 0 \<Longrightarrow> tax_on_cumulative_taxable x default_config = Inr 0"
  by (simp add: tax_default default_brackets_def max_def)

theorem zero_tax_below_zero_witness:
  "(- 2985.32 :: real) \<le> 0 \<and> tax_on_cumulative_taxable (- 2985.32) default_config = Inr 0"
proof -
  have h: "(- 2985.32 :: real) \<le> 0" by simp
  show ?thesis using h zero_tax_below_zero [OF h] by simp
qed

subsection \<open>Reported year-to-date taxable income\<close>

text \<open>
  C9. For every input on which the engine returns a result, the reported
  \<open>cumulative_taxable_income\<close> equals \<open>max 0\<close> of cumulative income minus
  cumulative social insurance, housing fund, standard deduction and special
  deduction (the last two being the monthly amounts times the month index);
  the internal cumulative taxable income is that difference unclamped, and the
  reported field is never negative.
\<close>

theorem reported_taxable_income:
  assumes "takehome_shanghai g m cfg_arg sd sib hfr hfb prev pw = Inr r"
  shows "\<exists>c. cumulative_figures g m (case cfg_arg of None \<Rightarrow> default_config | Some c \<Rightarrow> c)
                 sd sib hfr hfb prev = Inr c \<and>
           cum_standard c
             = standard_deduction_monthly
                 (case cfg_arg of None \<Rightarrow> default_config | Some c \<Rightarrow> c) * of_int m \<and>
           cum_special c = sd * of_int m \<and>
           cum_taxable c = cum_income c - cum_si c - cum_hf c - cum_standard c - cum_special c \<and>
           cumulative_taxable_income r =
             max 0 (cum_income c - cum_si c - cum_hf c - cum_standard c - cum_special c) \<and>
           0 \<le> cumulative_taxable_income r"
  using assms
  by (auto simp: takehome_shanghai_def cumulative_figures_def Let_def
      split: sum.splits prod.splits)

text \<open>
  Month 1 at 3,000: the deductions exceed the income, the internal figure is
  \<open>- 2985.32\<close> and the reported one is 0.
\<close>

theorem reported_taxable_income_witness:
  "takehome_shanghai 3000 1 None 0 None None None None 0
     = Inr \<lparr> r_month_index = 1, r_gross_salary = 3000, take_home = 2014.68,
             tax_this_month = 0, cumulative_tax_payable = 0,
             pre_tax_deductions_this_month = 985.32,
             social_insurance = \<lparr> base_si = 7384, pension = 590.72, medical = 147.68,
                                  unemployment = 36.92, total = 775.32 \<rparr>,
             housing_fund = \<lparr> rate_hf = 0.07, base_hf = 3000, amount = 210 \<rparr>,
             cumulative_taxable_income = 0,
             assumptions = \<lparr> a_standard_deduction_monthly = 5000,
                             a_special_deductions_monthly = 0,
                             si_base_used_this_month = 7384,
                             hf_base_used_this_month = 3000 \<rparr> \<rparr>
   \<and> cumulative_figures 3000 1 default_config 0 None None None None
     = Inr \<lparr> cum_income = 3000, cum_si = 775.32, cum_hf = 210, cum_standard = 5000,
             cum_special = 0, cum_taxable = - 2985.32, cum_tax_payable = 0 \<rparr>
   \<and> (0::real) = max 0 (3000 - 775.32 - 210 - 5000 - 0)"
proof -
  have v: "takehome_shanghai 3000 1 None 0 None None None None 0
     = Inr \<lparr> r_month_index = 1, r_gross_salary = 3000, take_home = 2014.68,
             tax_this_month = 0, cumulative_tax_payable = 0,
             pre_tax_deductions_this_month = 985.32,
             social_insurance = \<lparr> base_si = 7384, pension = 590.72, medical = 147.68,
                                  unemployment = 36.92, total = 775.32 \<rparr>,
             housing_fund = \<lparr> rate_hf = 0.07, base_hf = 3000, amount = 210 \<rparr>,
             cumulative_taxable_income = 0,
             assumptions = \<lparr> a_standard_deduction_monthly = 5000,
                             a_special_deductions_monthly = 0,
                             si_base_used_this_month = 7384,
                             hf_base_used_this_month = 3000 \<rparr> \<rparr>"
    by (simp add: engine_defs)
  have w: "cumulative_figures 3000 1 default_config 0 None None None None
     = Inr \<lparr> cum_income = 3000, cum_si = 775.32, cum_hf = 210, cum_standard = 5000,
             cum_special = 0, cum_taxable = - 2985.32, cum_tax_payable = 0 \<rparr>"
    by (simp add: engine_defs)
  show ?thesis using reported_taxable_income [OF v] v w by simp
qed

subsection \<open>Omitted configuration\<close>

text \<open>
  C10. Calling the engine with the configuration argument omitted (\<open>None\<close>)
  returns exactly the result of calling it with \<open>default_config\<close>, for every
  gross salary, month index and set of optional arguments.
\<close>

theorem omitted_config_is_default:
  "takehome_shanghai gross_salary month_index None special_deductions_monthly
       si_base hf_rate hf_base cumulative_prev_pay prev_withheld_tax
   = takehome_shanghai gross_salary month_index (Some default_config)
       special_deductions_monthly si_base hf_rate hf_base cumulative_prev_pay
       prev_withheld_tax"
  by (simp add: takehome_shanghai_def)

end
